theory Spec2Isabelle
  imports Complex_Main
begin

section \<open>Fireboat marine forecast: the aggregation logic of \<open>src/App.tsx\<close>\<close>

text \<open>
  The development embeds the body of \<open>fetchForecast\<close> (App.tsx, lines 67 to 280): the shift
  window, the tide normaliser, the current classification, the period slicer and aggregator
  and the assembly of the forecast object. The three HTTP exchanges are inputs of the model
  (what each \<open>fetch\<close> and \<open>json()\<close> produced); the debug log and the React state setters are
  left out, the value passed to \<open>setForecast\<close> or \<open>setError\<close> is the result.

  JavaScript numbers are modelled as exact reals (integers where the feed delivers
  integers), together with the three non-finite values a reduction over an empty array
  produces. Rounding errors of IEEE doubles are outside the model.
\<close>

subsection \<open>Numbers and their renderings\<close>

datatype 'a number = Num 'a | PosInfinity | NegInfinity | NaN

definition digitChar :: "nat \<Rightarrow> char" where
  "digitChar d = ''0123456789'' ! d"

fun digits :: "nat \<Rightarrow> string" where
  "digits n = (if n < 10 then [digitChar n] else digits (n div 10) @ [digitChar (n mod 10)])"

declare digits.simps [simp del]

definition isDigit :: "char \<Rightarrow> bool" where
  "isDigit c = (c \<in> set ''0123456789'')"

definition digitVal :: "char \<Rightarrow> nat" where
  "digitVal c = of_char c - 48"

definition natOfDigits :: "string \<Rightarrow> nat" where
  "natOfDigits s = foldl (\<lambda>acc c. 10 * acc + digitVal c) 0 s"

definition isSpace :: "char \<Rightarrow> bool" where
  "isSpace c = (c \<in> set [CHR '' '', CHR 0x09, CHR 0x0A, CHR 0x0B, CHR 0x0C, CHR 0x0D])"

definition numToString :: "int number \<Rightarrow> string" where
  \<comment> \<open>a number inside a template literal, for integral values\<close>
  "numToString x =
     (case x of
        NaN \<Rightarrow> ''NaN''
      | PosInfinity \<Rightarrow> ''Infinity''
      | NegInfinity \<Rightarrow> ''-Infinity''
      | Num i \<Rightarrow> (if i < 0 then ''-'' @ digits (nat (- i)) else digits (nat i)))"

definition Math_round :: "real number \<Rightarrow> int number" where
  \<comment> \<open>nearest integer, a tie goes up\<close>
  "Math_round x =
     (case x of
        NaN \<Rightarrow> NaN
      | PosInfinity \<Rightarrow> PosInfinity
      | NegInfinity \<Rightarrow> NegInfinity
      | Num r \<Rightarrow> Num \<lfloor>r + 1 / 2\<rfloor>)"

definition toFixed :: "nat \<Rightarrow> real number \<Rightarrow> string" where
  \<comment> \<open>\<open>x.toFixed(f)\<close>: the sign, then the integer \<open>n\<close> nearest to \<open>|x| * 10 ^ f\<close> (the larger
      on a tie) written with \<open>f\<close> digits after the point. Magnitudes from \<open>10 ^ 21\<close> on, which
      JavaScript writes in exponent form, are written positionally here too.\<close>
  "toFixed f x =
     (case x of
        NaN \<Rightarrow> ''NaN''
      | PosInfinity \<Rightarrow> ''Infinity''
      | NegInfinity \<Rightarrow> ''-Infinity''
      | Num r \<Rightarrow>
          (let n = nat \<lfloor>\<bar>r\<bar> * 10 ^ f + 1 / 2\<rfloor>;
               m0 = digits n;
               m = (if f = 0 then m0
                    else (let z = replicate (f + 1 - length m0) (CHR ''0'') @ m0;
                              k = length z
                          in take (k - f) z @ ''.'' @ drop (k - f) z))
           in if r < 0 then ''-'' @ m else m))"

definition splitSign :: "string \<Rightarrow> bool \<times> string" where
  "splitSign s =
     (case s of
        [] \<Rightarrow> (False, s)
      | c # r \<Rightarrow> if c = CHR ''-'' then (True, r) else if c = CHR ''+'' then (False, r) else (False, s))"

definition exponentPart :: "string \<Rightarrow> int" where
  "exponentPart s =
     (case s of
        [] \<Rightarrow> 0
      | c # r \<Rightarrow>
          if c = CHR ''e'' \<or> c = CHR ''E''
          then (let (neg, r') = splitSign r; ed = takeWhile isDigit r'
                in if ed = [] then 0
                   else if neg then - int (natOfDigits ed) else int (natOfDigits ed))
          else 0)"

definition parseFloat :: "string \<Rightarrow> real number" where
  \<comment> \<open>the longest prefix, after leading white space, that is a decimal literal\<close>
  "parseFloat s =
     (let (neg, u) = splitSign (dropWhile isSpace s)
      in if take 8 u = ''Infinity'' then (if neg then NegInfinity else PosInfinity)
         else
           (let ip = takeWhile isDigit u;
                r1 = dropWhile isDigit u;
                dot = (r1 \<noteq> [] \<and> hd r1 = CHR ''.'');
                fp = (if dot then takeWhile isDigit (tl r1) else []);
                r2 = (if dot then dropWhile isDigit (tl r1) else r1)
            in if ip = [] \<and> fp = [] then NaN
               else
                 (let mant = real (natOfDigits ip) + real (natOfDigits fp) / 10 ^ length fp;
                      ex = exponentPart r2;
                      v = (if 0 \<le> ex then mant * 10 ^ nat ex else mant / 10 ^ nat (- ex))
                  in Num (if neg then - v else v))))"

definition Math_min :: "'a::linorder list \<Rightarrow> 'a number" where
  \<comment> \<open>\<open>Math.min(...xs)\<close>\<close>
  "Math_min xs = (case xs of [] \<Rightarrow> PosInfinity | x # r \<Rightarrow> Num (fold min r x))"

definition Math_max :: "'a::linorder list \<Rightarrow> 'a number" where
  \<comment> \<open>\<open>Math.max(...xs)\<close>\<close>
  "Math_max xs = (case xs of [] \<Rightarrow> NegInfinity | x # r \<Rightarrow> Num (fold max r x))"

definition average :: "real list \<Rightarrow> real number" where
  \<comment> \<open>\<open>xs.reduce((a, b) => a + b, 0) / xs.length\<close>; \<open>0 / 0\<close> is \<open>NaN\<close>\<close>
  "average xs = (if length xs = 0 then NaN else Num (foldl (+) 0 xs / real (length xs)))"

definition lessThan_num :: "real number \<Rightarrow> real \<Rightarrow> bool" where
  \<comment> \<open>\<open>x < c\<close> for a finite constant \<open>c\<close>; every comparison with \<open>NaN\<close> is false\<close>
  "lessThan_num x c =
     (case x of Num r \<Rightarrow> r < c | NegInfinity \<Rightarrow> True | PosInfinity \<Rightarrow> False | NaN \<Rightarrow> False)"

definition divide_num :: "real number \<Rightarrow> real \<Rightarrow> real number" where
  \<comment> \<open>\<open>x / c\<close> for a positive finite constant \<open>c\<close>\<close>
  "divide_num x c = (case x of Num r \<Rightarrow> Num (r / c) | y \<Rightarrow> y)"

subsection \<open>Arrays\<close>

definition slice :: "'a list \<Rightarrow> int \<Rightarrow> int \<Rightarrow> 'a list" where
  \<comment> \<open>\<open>xs.slice(s, e)\<close>: a negative index counts from the end, both are cut to the array\<close>
  "slice xs s e =
     (let len = int (length xs);
          k = (if s < 0 then max (len + s) 0 else min s len);
          final = (if e < 0 then max (len + e) 0 else min e len)
      in take (nat (final - k)) (drop (nat k) xs))"

definition at_index :: "'a list \<Rightarrow> nat \<Rightarrow> 'a option" where
  \<comment> \<open>\<open>xs[i]\<close>: \<open>undefined\<close>, here \<open>None\<close>, out of range\<close>
  "at_index xs i = (if i < length xs then Some (xs ! i) else None)"

subsection \<open>Dates\<close>

text \<open>
  A \<open>Date\<close> is its time value read in local wall-clock time: milliseconds since local
  midnight of day 0. Daylight-saving shifts of the local zone are outside the model.
  An invalid date is \<open>None\<close> where one can arise.
\<close>

type_synonym Date = int

definition msPerDay :: int where
  "msPerDay = 86400000"

definition msPerHour :: int where
  "msPerHour = 3600000"

definition msPerMinute :: int where
  "msPerMinute = 60000"

definition getDay :: "Date \<Rightarrow> int" where
  \<comment> \<open>the local calendar day, counted from day 0\<close>
  "getDay d = d div msPerDay"

definition getHours :: "Date \<Rightarrow> int" where
  "getHours d = (d div msPerHour) mod 24"

definition getMinutes :: "Date \<Rightarrow> int" where
  "getMinutes d = (d div msPerMinute) mod 60"

definition setHours :: "Date \<Rightarrow> int \<Rightarrow> int \<Rightarrow> int \<Rightarrow> int \<Rightarrow> Date" where
  \<comment> \<open>\<open>d.setHours(h, m, s, ms)\<close>: same calendar day, new time of day\<close>
  "setHours d h m s ms = getDay d * msPerDay + h * msPerHour + m * msPerMinute + s * 1000 + ms"

definition setDate_by :: "Date \<Rightarrow> int \<Rightarrow> Date" where
  \<comment> \<open>\<open>d.setDate(d.getDate() + k)\<close>: the day of the month moves by \<open>k\<close> and the calendar
      normalises it, so the result is \<open>k\<close> calendar days away at the same time of day\<close>
  "setDate_by d k = d + k * msPerDay"

text \<open>Lines 75 to 83: the shift window, \<open>(shiftStart, shiftEnd)\<close>.\<close>

definition shiftStart_of :: "Date \<Rightarrow> Date" where
  "shiftStart_of now =
     (let shiftStart = setHours now 8 0 0 0
      in if getHours now < 8 then setDate_by shiftStart (- 1) else shiftStart)"

definition shiftEnd_of :: "Date \<Rightarrow> Date" where
  "shiftEnd_of shiftStart = setHours (setDate_by shiftStart 1) 8 0 0 0"

definition shiftWindow :: "Date \<Rightarrow> Date \<times> Date" where
  "shiftWindow now = (let shiftStart = shiftStart_of now in (shiftStart, shiftEnd_of shiftStart))"

subsection \<open>The period slicer\<close>

record Period =
  period_name :: string
  period_start :: int
  period_end :: int

definition periods :: "Period list" where
  "periods =
     [\<lparr>period_name = ''Morning (08:00-12:00)'', period_start = 8, period_end = 12\<rparr>,
      \<lparr>period_name = ''Afternoon (12:00-18:00)'', period_start = 12, period_end = 18\<rparr>,
      \<lparr>period_name = ''Evening (18:00-00:00)'', period_start = 18, period_end = 24\<rparr>,
      \<lparr>period_name = ''Night (00:00-08:00)'', period_start = 0, period_end = 8\<rparr>]"

text \<open>
  Lines 183 to 194: \<open>(startIdx, endIdx)\<close> after clamping; \<open>len\<close> is
  \<open>weatherData.hourly.time.length\<close>.
\<close>

definition rawIdx :: "int \<Rightarrow> Period \<Rightarrow> int \<times> int" where
  "rawIdx currentHour period =
     (if period_start period < 8
      then (24 - currentHour + period_start period, 24 - currentHour + period_end period)
      else (period_start period - currentHour, period_end period - currentHour))"

definition clampIdx :: "nat \<Rightarrow> int \<Rightarrow> Period \<Rightarrow> int \<times> int" where
  "clampIdx len currentHour period =
     (let (startIdx, endIdx) = rawIdx currentHour period
      in (max 0 startIdx, min (int len - 1) endIdx))"

subsection \<open>Descriptions and conversions\<close>

definition codes :: "(int \<times> string) list" where
  "codes =
     [(0, ''Clear''), (1, ''Mainly Clear''), (2, ''Partly Cloudy''), (3, ''Overcast''),
      (45, ''Foggy''), (48, ''Foggy''), (51, ''Light Drizzle''), (53, ''Drizzle''),
      (55, ''Heavy Drizzle''), (61, ''Light Rain''), (63, ''Rain''), (65, ''Heavy Rain''),
      (71, ''Light Snow''), (73, ''Snow''), (75, ''Heavy Snow''), (80, ''Light Showers''),
      (81, ''Showers''), (82, ''Heavy Showers''), (95, ''Thunderstorm'')]"

definition getWeatherDescription :: "int option \<Rightarrow> string" where
  \<comment> \<open>\<open>codes[code] || 'Unknown'\<close>; the argument is \<open>undefined\<close>, here \<open>None\<close>, when it was
      read past the end of an array\<close>
  "getWeatherDescription code =
     (case code of
        None \<Rightarrow> ''Unknown''
      | Some c \<Rightarrow>
          (case map_of codes c of
             None \<Rightarrow> ''Unknown''
           | Some label \<Rightarrow> if label = [] then ''Unknown'' else label))"

definition dirs :: "string list" where
  "dirs = [''N'', ''NNE'', ''NE'', ''ENE'', ''E'', ''ESE'', ''SE'', ''SSE'',
           ''S'', ''SSW'', ''SW'', ''WSW'', ''W'', ''WNW'', ''NW'', ''NNW'']"

definition js_rem :: "int \<Rightarrow> int \<Rightarrow> int" where
  \<comment> \<open>\<open>a % b\<close>: the remainder has the sign of the dividend\<close>
  "js_rem a b = sgn a * (\<bar>a\<bar> mod \<bar>b\<bar>)"

definition getWindDirection :: "real number \<Rightarrow> string option" where
  \<comment> \<open>\<open>dirs[Math.round(degrees / 22.5) % 16]\<close>; \<open>None\<close> is \<open>undefined\<close>\<close>
  "getWindDirection degrees =
     (case Math_round (divide_num degrees 22.5) of
        Num r \<Rightarrow> (let i = js_rem r 16 in if 0 \<le> i then at_index dirs (nat i) else None)
      | _ \<Rightarrow> None)"

definition metersToMiles :: "real number \<Rightarrow> string" where
  "metersToMiles meters = toFixed 1 (divide_num meters 1609.34)"

definition degree_sign :: string where
  \<comment> \<open>the character U+00B0, in UTF-8\<close>
  "degree_sign = [CHR 0xC2, CHR 0xB0]"

definition in_template :: "string option \<Rightarrow> string" where
  \<comment> \<open>a possibly undefined string inside a template literal\<close>
  "in_template s = (case s of None \<Rightarrow> ''undefined'' | Some t \<Rightarrow> t)"

definition two_digit :: "nat \<Rightarrow> string" where
  "two_digit n = (if n < 10 then CHR ''0'' # digits n else digits n)"

definition toLocaleTimeString :: "Date option \<Rightarrow> string" where
  \<comment> \<open>\<open>toLocaleTimeString('en-US', {hour: '2-digit', minute: '2-digit', hour12: false})\<close>,
      with the hour cycle 00 to 23\<close>
  "toLocaleTimeString d =
     (case d of
        None \<Rightarrow> ''Invalid Date''
      | Some t \<Rightarrow> two_digit (nat (getHours t)) @ '':'' @ two_digit (nat (getMinutes t)))"

subsection \<open>The payloads\<close>

datatype 'a body = Unparseable string | Parsed 'a

datatype 'a response = NetworkError string | Http nat "'a body"

text \<open>
  \<open>NetworkError m\<close>: \<open>fetch\<close> rejected with message \<open>m\<close>. \<open>Http status b\<close>: it resolved
  with that status; \<open>b\<close> is what \<open>json()\<close> gives, the parsed body or a rejection with its
  message.
\<close>

definition ok :: "'a response \<Rightarrow> bool" where
  "ok r = (case r of NetworkError _ \<Rightarrow> False | Http status _ \<Rightarrow> 200 \<le> status \<and> status \<le> 299)"

record current =
  cur_temperature_2m :: real
  cur_relative_humidity_2m :: int
  cur_apparent_temperature :: real
  cur_weather_code :: int
  cur_pressure_msl :: real
  cur_wind_speed_10m :: real
  cur_wind_direction_10m :: real
  cur_wind_gusts_10m :: real

record hourly =
  hr_time :: "string list"
  hr_temperature_2m :: "real list"
  hr_precipitation_probability :: "int list"
  hr_weather_code :: "int list"
  hr_visibility :: "real list"
  hr_wind_speed_10m :: "real list"
  hr_wind_direction_10m :: "real list"
  hr_wind_gusts_10m :: "real list"

record daily =
  dy_sunrise :: "Date option list"
  dy_sunset :: "Date option list"

text \<open>
  The entries of \<open>sunrise\<close> and \<open>sunset\<close>, and the field \<open>t\<close> of a tide prediction, are
  held as the \<open>Date\<close> constructor reads them. A section of the weather payload that is
  missing is \<open>None\<close>: reading a property of it raises a \<open>TypeError\<close>.
\<close>

record weatherData =
  wd_current :: "current option"
  wd_hourly :: "hourly option"
  wd_daily :: "daily option"

record prediction =
  pr_t :: "Date option"
  pr_type :: string
  pr_v :: string

record tideData =
  predictions :: "prediction list option"

record reading =
  rd_v :: string

record waterTempData =
  wt_data :: "reading list option"

subsection \<open>The result\<close>

record Tide =
  tide_time :: string
  tide_type :: string
  tide_height :: string

record CurrentConditions =
  cc_temp :: string
  cc_feelsLike :: string
  cc_conditions :: string
  cc_windSpeed :: string
  cc_windDir :: "string option"
  cc_gusts :: string
  cc_pressure :: string
  cc_humidity :: string

record PeriodForecast =
  pf_period :: string
  pf_temp :: string
  pf_conditions :: string
  pf_wind :: string
  pf_visibility :: string
  pf_precipitation :: string
  pf_waves :: string

record MarineData =
  md_waterTemp :: string
  md_currentSpeed :: string
  md_currentDir :: string
  md_sunrise :: string
  md_sunset :: string

record Conditions =
  cond_current :: CurrentConditions
  cond_forecast :: "PeriodForecast list"

text \<open>
  \<open>shiftStart\<close> and \<open>shiftEnd\<close> are kept as dates; the source stores their rendering by
  \<open>toLocaleString\<close> (weekday, month, day, hour and minute).
\<close>

record ForecastData =
  fd_location :: string
  fd_shiftStart :: Date
  fd_shiftEnd :: Date
  fd_tides :: "Tide list"
  fd_conditions :: Conditions
  fd_marine :: MarineData

datatype failure =
    WeatherApi nat \<comment> \<open>\<open>Error(`Weather API returned ${status}`)\<close>\<close>
  | Thrown string \<comment> \<open>\<open>fetch\<close> or \<open>json()\<close> rejected, with the message\<close>
  | TypeError \<comment> \<open>a property was read on a missing section\<close>

subsection \<open>Tides, water temperature and current\<close>

definition normalizeTide :: "prediction \<Rightarrow> Tide" where
  \<comment> \<open>lines 113 to 120, the function mapped over the predictions\<close>
  "normalizeTide tide =
     \<lparr>tide_time = toLocaleTimeString (pr_t tide),
      tide_type = (if pr_type tide = ''H'' then ''High'' else ''Low''),
      tide_height = toFixed 1 (parseFloat (pr_v tide)) @ '' ft''\<rparr>"

definition normalizeTides :: "prediction list \<Rightarrow> Tide list" where
  "normalizeTides ps = map normalizeTide (slice ps 0 4)"

definition tides_of :: "tideData response \<Rightarrow> Tide list" where
  \<comment> \<open>lines 106 to 125; any exception leaves the empty list\<close>
  "tides_of r =
     (case r of
        NetworkError _ \<Rightarrow> []
      | Http _ (Unparseable _) \<Rightarrow> []
      | Http _ (Parsed tideData) \<Rightarrow>
          (case predictions tideData of None \<Rightarrow> [] | Some ps \<Rightarrow> normalizeTides ps))"

definition defaultWaterTemp :: string where
  "defaultWaterTemp = ''52'' @ degree_sign @ ''F''"

definition waterTemp_of :: "waterTempData response \<Rightarrow> string" where
  \<comment> \<open>lines 128 to 139\<close>
  "waterTemp_of r =
     (case r of
        NetworkError _ \<Rightarrow> defaultWaterTemp
      | Http _ (Unparseable _) \<Rightarrow> defaultWaterTemp
      | Http _ (Parsed waterTempData) \<Rightarrow>
          (case wt_data waterTempData of
             None \<Rightarrow> defaultWaterTemp
           | Some [] \<Rightarrow> defaultWaterTemp
           | Some (d # _) \<Rightarrow>
               numToString (Math_round (parseFloat (rd_v d))) @ degree_sign @ ''F''))"

definition current_of :: "Tide list \<Rightarrow> string \<times> string" where
  \<comment> \<open>lines 161 to 171: \<open>(currentSpeed, currentDir)\<close>\<close>
  "current_of tides =
     (if length tides \<ge> 2
      then (if tide_type (tides ! 0) = ''Low'' \<and> tide_type (tides ! 1) = ''High''
            then (''0.5-1.5 kt'', ''Flood (incoming)'')
            else if tide_type (tides ! 0) = ''High'' \<and> tide_type (tides ! 1) = ''Low''
            then (''0.5-1.5 kt'', ''Ebb (outgoing)'')
            else (''Variable'', ''Variable''))
      else (''Variable'', ''Variable''))"

subsection \<open>The period aggregator\<close>

definition waveHeight :: "real number \<Rightarrow> string" where
  \<comment> \<open>line 225, as a function of \<open>avgWindNum\<close>\<close>
  "waveHeight avgWindNum =
     (if lessThan_num avgWindNum 10 then ''1-2 ft''
      else if lessThan_num avgWindNum 15 then ''2-3 ft''
      else if lessThan_num avgWindNum 20 then ''3-5 ft''
      else ''4-6 ft'')"

definition periodForecast :: "hourly \<Rightarrow> int \<Rightarrow> Period \<Rightarrow> PeriodForecast" where
  \<comment> \<open>lines 182 to 236, the function mapped over \<open>periods\<close>\<close>
  "periodForecast h currentHour period =
     (let (startIdx, endIdx) = clampIdx (length (hr_time h)) currentHour period
      in if startIdx \<ge> endIdx
         then \<lparr>pf_period = period_name period, pf_temp = ''N/A'', pf_conditions = ''N/A'',
               pf_wind = ''N/A'', pf_visibility = ''N/A'', pf_precipitation = ''N/A'',
               pf_waves = ''N/A''\<rparr>
         else
           (let temps = slice (hr_temperature_2m h) startIdx endIdx;
                precips = slice (hr_precipitation_probability h) startIdx endIdx;
                winds = slice (hr_wind_speed_10m h) startIdx endIdx;
                gusts = slice (hr_wind_gusts_10m h) startIdx endIdx;
                windDirs = slice (hr_wind_direction_10m h) startIdx endIdx;
                visibility = slice (hr_visibility h) startIdx endIdx;
                weatherCodes = slice (hr_weather_code h) startIdx endIdx;
                minTemp = Math_min temps;
                maxTemp = Math_max temps;
                maxPrecip = Math_max precips;
                avgWind = toFixed 0 (average winds);
                maxGust = toFixed 0 (Math_max gusts);
                avgWindDir = getWindDirection (average windDirs);
                minVis = Math_min visibility;
                dominantWeather =
                  getWeatherDescription (at_index weatherCodes (length weatherCodes div 2));
                avgWindNum = parseFloat avgWind
            in \<lparr>pf_period = period_name period,
                pf_temp = numToString (Math_round minTemp) @ ''-''
                          @ numToString (Math_round maxTemp) @ degree_sign @ ''F'',
                pf_conditions = dominantWeather,
                pf_wind = avgWind @ '' kt '' @ in_template avgWindDir
                          @ '' (Gusts '' @ maxGust @ '' kt)'',
                pf_visibility = metersToMiles minVis @ '' mi'',
                pf_precipitation = numToString maxPrecip @ ''%'',
                pf_waves = waveHeight avgWindNum\<rparr>))"

subsection \<open>The forecast object\<close>

definition currentConditions :: "current \<Rightarrow> CurrentConditions" where
  \<comment> \<open>lines 249 to 258\<close>
  "currentConditions c =
     \<lparr>cc_temp = numToString (Math_round (Num (cur_temperature_2m c))) @ degree_sign @ ''F'',
      cc_feelsLike =
        numToString (Math_round (Num (cur_apparent_temperature c))) @ degree_sign @ ''F'',
      cc_conditions = getWeatherDescription (Some (cur_weather_code c)),
      cc_windSpeed = numToString (Math_round (Num (cur_wind_speed_10m c))) @ '' kt'',
      cc_windDir = getWindDirection (Num (cur_wind_direction_10m c)),
      cc_gusts = numToString (Math_round (Num (cur_wind_gusts_10m c))) @ '' kt'',
      cc_pressure = toFixed 2 (Num (cur_pressure_msl c / 33.864)) @ '' inHg'',
      cc_humidity = numToString (Num (cur_relative_humidity_2m c)) @ ''%''\<rparr>"

definition first_date :: "Date option list \<Rightarrow> Date option" where
  \<comment> \<open>\<open>new Date(xs[0])\<close>; the date made from \<open>undefined\<close> is invalid\<close>
  "first_date xs = (case at_index xs 0 of None \<Rightarrow> None | Some d \<Rightarrow> d)"

definition buildForecast ::
  "Date \<Rightarrow> weatherData \<Rightarrow> Tide list \<Rightarrow> string \<Rightarrow> failure + ForecastData" where
  \<comment> \<open>lines 161 to 268, once the three exchanges are over\<close>
  "buildForecast now weatherData tides waterTemp =
     (case (wd_hourly weatherData, wd_current weatherData, wd_daily weatherData) of
        (Some h, Some c, Some d) \<Rightarrow>
          (let (shiftStart, shiftEnd) = shiftWindow now;
               (currentSpeed, currentDir) = current_of tides;
               currentHour = getHours now;
               periodForecasts = map (periodForecast h currentHour) periods
           in Inr \<lparr>fd_location = ''Elliott Bay, Seattle'',
                   fd_shiftStart = shiftStart,
                   fd_shiftEnd = shiftEnd,
                   fd_tides = tides,
                   fd_conditions =
                     \<lparr>cond_current = currentConditions c, cond_forecast = periodForecasts\<rparr>,
                   fd_marine =
                     \<lparr>md_waterTemp = waterTemp,
                      md_currentSpeed = currentSpeed,
                      md_currentDir = currentDir,
                      md_sunrise = toLocaleTimeString (first_date (dy_sunrise d)),
                      md_sunset = toLocaleTimeString (first_date (dy_sunset d))\<rparr>\<rparr>)
      | _ \<Rightarrow> Inl TypeError)"

definition fetchForecast ::
  "Date \<Rightarrow> weatherData response \<Rightarrow> tideData response \<Rightarrow> waterTempData response
     \<Rightarrow> failure + ForecastData" where
  \<comment> \<open>lines 67 to 280: \<open>Inl\<close> is the error handed to \<open>setError\<close>, \<open>Inr\<close> the object handed
      to \<open>setForecast\<close>\<close>
  "fetchForecast now weatherResponse tideResponse waterTempResponse =
     (case weatherResponse of
        NetworkError m \<Rightarrow> Inl (Thrown m)
      | Http status b \<Rightarrow>
          if \<not> ok weatherResponse then Inl (WeatherApi status)
          else (case b of
                  Unparseable m \<Rightarrow> Inl (Thrown m)
                | Parsed weatherData \<Rightarrow>
                    buildForecast now weatherData (tides_of tideResponse)
                      (waterTemp_of waterTempResponse)))"

subsection \<open>Notions of the specification\<close>

definition notAvailable :: "string \<Rightarrow> PeriodForecast" where
  \<comment> \<open>the summary of an empty period: every field but the label is \<open>N/A\<close>\<close>
  "notAvailable label =
     \<lparr>pf_period = label, pf_temp = ''N/A'', pf_conditions = ''N/A'', pf_wind = ''N/A'',
      pf_visibility = ''N/A'', pf_precipitation = ''N/A'', pf_waves = ''N/A''\<rparr>"

definition times_only :: "nat \<Rightarrow> hourly" where
  \<comment> \<open>a series of \<open>n\<close> time stamps whose data arrays are empty\<close>
  "times_only n =
     \<lparr>hr_time = replicate n ''t'', hr_temperature_2m = [], hr_precipitation_probability = [],
      hr_weather_code = [], hr_visibility = [], hr_wind_speed_10m = [],
      hr_wind_direction_10m = [], hr_wind_gusts_10m = []\<rparr>"




definition sample_hourly :: hourly where
  \<comment> \<open>six hours of data, for the worked examples\<close>
  "sample_hourly =
     \<lparr>hr_time = [''08:00'', ''09:00'', ''10:00'', ''11:00'', ''12:00'', ''13:00''],
      hr_temperature_2m = [50.2, 51, 52.6, 54, 55, 53],
      hr_precipitation_probability = [10, 20, 20, 30, 0, 0],
      hr_weather_code = [3, 3, 63, 3, 1, 0],
      hr_visibility = [16000, 12000, 9000, 16000, 24140, 24140],
      hr_wind_speed_10m = [9, 10, 9, 10, 12, 14],
      hr_wind_direction_10m = [180, 200, 190, 210, 220, 230],
      hr_wind_gusts_10m = [15, 18, 17, 20, 22, 25]\<rparr>"




definition sample_predictions :: "prediction list" where
  \<comment> \<open>five predictions, for the worked examples\<close>
  "sample_predictions =
     [\<lparr>pr_t = Some (3 * msPerHour + 24 * msPerMinute), pr_type = ''H'', pr_v = ''10.525''\<rparr>,
      \<lparr>pr_t = Some (9 * msPerHour + 5 * msPerMinute), pr_type = ''L'', pr_v = ''-1.249''\<rparr>,
      \<lparr>pr_t = Some (15 * msPerHour + 51 * msPerMinute), pr_type = ''H'', pr_v = ''11.96''\<rparr>,
      \<lparr>pr_t = Some (22 * msPerHour), pr_type = ''L'', pr_v = ''0.04''\<rparr>,
      \<lparr>pr_t = Some (28 * msPerHour + 2 * msPerMinute), pr_type = ''H'', pr_v = ''9.8''\<rparr>]"

definition weather_unusable :: "weatherData response \<Rightarrow> bool" where
  \<comment> \<open>the weather payload is absent (no response, or a status outside 200 to 299) or
      malformed (the body does not parse, or lacks one of its three sections)\<close>
  "weather_unusable r =
     (case r of
        NetworkError _ \<Rightarrow> True
      | Http status b \<Rightarrow>
          status < 200 \<or> 299 < status
          \<or> (case b of
                Unparseable _ \<Rightarrow> True
              | Parsed w \<Rightarrow> wd_hourly w = None \<or> wd_current w = None \<or> wd_daily w = None))"

definition tide_missing :: "tideData response \<Rightarrow> bool" where
  \<comment> \<open>the tide payload is missing or holds no prediction\<close>
  "tide_missing r =
     (case r of
        NetworkError _ \<Rightarrow> True
      | Http _ (Unparseable _) \<Rightarrow> True
      | Http _ (Parsed tideData) \<Rightarrow> predictions tideData = None \<or> predictions tideData = Some [])"

definition waterTemp_missing :: "waterTempData response \<Rightarrow> bool" where
  \<comment> \<open>the water-temperature payload is missing or holds no reading\<close>
  "waterTemp_missing r =
     (case r of
        NetworkError _ \<Rightarrow> True
      | Http _ (Unparseable _) \<Rightarrow> True
      | Http _ (Parsed waterTempData) \<Rightarrow>
          wt_data waterTempData = None \<or> wt_data waterTempData = Some [])"

definition sample_current :: current where
  \<comment> \<open>a weather payload, for the worked examples\<close>
  "sample_current =
     \<lparr>cur_temperature_2m = 51.4, cur_relative_humidity_2m = 82, cur_apparent_temperature = 48.5,
      cur_weather_code = 3, cur_pressure_msl = 1013.2, cur_wind_speed_10m = 9.4,
      cur_wind_direction_10m = 190, cur_wind_gusts_10m = 15.5\<rparr>"

definition sample_daily :: daily where
  "sample_daily =
     \<lparr>dy_sunrise = [Some (7 * msPerHour + 52 * msPerMinute)],
      dy_sunset = [Some (16 * msPerHour + 41 * msPerMinute)]\<rparr>"

definition sample_weather :: weatherData where
  "sample_weather =
     \<lparr>wd_current = Some sample_current, wd_hourly = Some sample_hourly,
      wd_daily = Some sample_daily\<rparr>"

section \<open>Properties\<close>

subsection \<open>Shift window\<close>

lemmas ms_defs = msPerDay_def msPerHour_def msPerMinute_def

lemma getHours_at: "0 \<le> h \<Longrightarrow> h < 24 \<Longrightarrow> getHours (k * msPerDay + h * msPerHour) = h"
proof -
  assume h: "0 \<le> h" "h < 24"
  have "(k * 86400000 + h * 3600000) div 3600000 = k * 24 + h" by simp
  then show ?thesis using h by (simp add: getHours_def ms_defs)
qed

lemma getDay_at: "0 \<le> h \<Longrightarrow> h < 24 \<Longrightarrow> getDay (k * msPerDay + h * msPerHour) = k"
  by (simp add: getDay_def ms_defs)

lemma shiftStart_of_eq:
  "shiftStart_of now =
     (if 8 \<le> getHours now then getDay now else getDay now - 1) * msPerDay + 8 * msPerHour"
  by (simp add: shiftStart_of_def setHours_def setDate_by_def Let_def ms_defs algebra_simps)

lemma shiftEnd_of_eq:
  "shiftEnd_of (k * msPerDay + 8 * msPerHour) = (k + 1) * msPerDay + 8 * msPerHour"
proof -
  have "getDay (setDate_by (k * msPerDay + 8 * msPerHour) 1) = k + 1"
    by (simp add: getDay_def setDate_by_def ms_defs)
  then show ?thesis by (simp add: shiftEnd_of_def setHours_def)
qed

text \<open>
  C3, as the code has it. The shift-start hour is the constant 8 of lines 77, 78 and 83, not
  an input. For every \<open>now\<close> the window ends 24 hours of local wall-clock time after it
  starts, that is at 08:00 of the next calendar day; it starts at 08:00 sharp, today when
  the hour of \<open>now\<close> is at least 8 and yesterday when it is below 8.
\<close>

theorem shiftWindow_fixed_hour:
  "snd (shiftWindow now) = fst (shiftWindow now) + 24 * msPerHour
   \<and> getHours (fst (shiftWindow now)) = 8
   \<and> getMinutes (fst (shiftWindow now)) = 0
   \<and> fst (shiftWindow now) mod msPerMinute = 0
   \<and> getDay (fst (shiftWindow now)) = (if 8 \<le> getHours now then getDay now else getDay now - 1)
   \<and> getHours (snd (shiftWindow now)) = 8
   \<and> getDay (snd (shiftWindow now)) = getDay (fst (shiftWindow now)) + 1"
proof -
  define k where "k = (if 8 \<le> getHours now then getDay now else getDay now - 1)"
  have s: "fst (shiftWindow now) = k * msPerDay + 8 * msPerHour"
    by (simp add: shiftWindow_def Let_def shiftStart_of_eq k_def)
  have e: "snd (shiftWindow now) = (k + 1) * msPerDay + 8 * msPerHour"
    by (simp add: shiftWindow_def Let_def shiftStart_of_eq shiftEnd_of_eq k_def)
  have 1: "snd (shiftWindow now) = fst (shiftWindow now) + 24 * msPerHour"
    unfolding s e by (simp add: ms_defs algebra_simps)
  have 2: "getHours (fst (shiftWindow now)) = 8" unfolding s by (rule getHours_at) simp_all
  have 3: "getMinutes (fst (shiftWindow now)) = 0" unfolding s by (simp add: getMinutes_def ms_defs)
  have 4: "fst (shiftWindow now) mod msPerMinute = 0" unfolding s by (simp add: ms_defs)
  have 5: "getDay (fst (shiftWindow now)) = k" unfolding s by (rule getDay_at) simp_all
  have 6: "getHours (snd (shiftWindow now)) = 8" unfolding e by (rule getHours_at) simp_all
  have 7: "getDay (snd (shiftWindow now)) = k + 1" unfolding e by (rule getDay_at) simp_all
  show ?thesis using 1 2 3 4 5 6 7 by (simp add: k_def)
qed

text \<open>Witness for C3: at 07:00 of day 0 the window runs from 08:00 of day -1 to 08:00 of day 0.\<close>

theorem shiftWindow_fixed_hour_witness:
  "getHours (7 * msPerHour) < 8 \<and> shiftWindow (7 * msPerHour) = (- 16 * msPerHour, 8 * msPerHour)
   \<and> getDay (fst (shiftWindow (7 * msPerHour))) = getDay (7 * msPerHour) - 1"
  using shiftWindow_fixed_hour [of "7 * msPerHour"]
  by (simp add: shiftWindow_def shiftStart_of_def shiftEnd_of_def setHours_def setDate_by_def
      getDay_def getHours_def Let_def ms_defs)

text \<open>
  C3 as stated fails: the calculator has no configured hour. With the shift meant to start
  at 9 and \<open>now\<close> at 10:00 of day 0 the claim wants a start at hour 9; the start is at hour 8.
\<close>

theorem shiftWindow_ignores_configured_hour:
  "getHours (fst (shiftWindow (10 * msPerHour))) \<noteq> 9"
  by (simp add: shiftWindow_def shiftStart_of_def shiftEnd_of_def setHours_def setDate_by_def
      getDay_def getHours_def Let_def ms_defs)

subsection \<open>Slicer\<close>

text \<open>
  C1, as the code has it. For a series of length 24 and \<open>currentHour = 8\<close> the ranges are
  \<open>[0,4)\<close>, \<open>[4,10)\<close>, \<open>[10,16)\<close> and, for the night, \<open>[16,23)\<close>: line 194 cuts the end
  index to \<open>length - 1 = 23\<close>. The night range is \<open>[16,24)\<close> for every series of length 25
  or more.
\<close>

theorem slicer_length24_hour8:
  "map (clampIdx 24 8) periods = [(0, 4), (4, 10), (10, 16), (16, 23)]
   \<and> (\<forall>len \<ge> 25. map (clampIdx len 8) periods = [(0, 4), (4, 10), (10, 16), (16, 24)])"
  by (simp add: periods_def clampIdx_def rawIdx_def)

text \<open>Witness for C1: a series of one week, 168 hours.\<close>

theorem slicer_length24_hour8_witness:
  "(168::nat) \<ge> 25 \<and> map (clampIdx 168 8) periods = [(0, 4), (4, 10), (10, 16), (16, 24)]"
  using slicer_length24_hour8 by simp

text \<open>C1 as stated fails: with length 24 the four ranges are not those of the claim.\<close>

theorem slicer_night_range_counterexample:
  "map (clampIdx 24 8) periods \<noteq> [(0, 4), (4, 10), (10, 16), (16, 24)]"
  by (simp add: periods_def clampIdx_def rawIdx_def)

lemma clampIdx_bounds:
  "0 \<le> fst (clampIdx len currentHour period)"
  "snd (clampIdx len currentHour period) \<le> int len - 1"
  by (auto simp add: clampIdx_def rawIdx_def)

lemma periodForecast_empty:
  "snd (clampIdx (length (hr_time h)) currentHour period)
     \<le> fst (clampIdx (length (hr_time h)) currentHour period)
   \<Longrightarrow> periodForecast h currentHour period = notAvailable (period_name period)"
  by (cases "clampIdx (length (hr_time h)) currentHour period")
    (simp add: periodForecast_def notAvailable_def)

text \<open>
  C2, as the code has it. For each of the four periods and every \<open>currentHour\<close> from 0 to 23
  the clamped indices satisfy \<open>0 \<le> startIdx\<close> and \<open>endIdx \<le> length - 1\<close>, and whenever
  \<open>startIdx \<ge> endIdx\<close> (line 196) the summary is \<open>N/A\<close> in every field but the label.
  \<open>endIdx\<close> is not bounded below: it can be smaller than \<open>startIdx\<close>, and negative.
\<close>

theorem slicer_bounds_and_empty:
  "\<forall>period \<in> set periods. \<forall>currentHour \<in> {0..23}.
     0 \<le> fst (clampIdx (length (hr_time h)) currentHour period)
     \<and> snd (clampIdx (length (hr_time h)) currentHour period) \<le> int (length (hr_time h)) - 1
     \<and> (fst (clampIdx (length (hr_time h)) currentHour period)
           \<ge> snd (clampIdx (length (hr_time h)) currentHour period)
         \<longrightarrow> periodForecast h currentHour period = notAvailable (period_name period))"
  using clampIdx_bounds periodForecast_empty by blast

text \<open>Witness for C2: the morning period at 20:00, whose range is empty.\<close>

theorem slicer_bounds_and_empty_witness:
  "periods ! 0 \<in> set periods \<and> (20::int) \<in> {0..23}
   \<and> clampIdx (length (hr_time (times_only 24))) 20 (periods ! 0) = (0, - 8)
   \<and> periodForecast (times_only 24) 20 (periods ! 0) = notAvailable ''Morning (08:00-12:00)''"
proof -
  have p: "periods ! 0 \<in> set periods" by (simp add: periods_def)
  have c: "(20::int) \<in> {0..23}" by simp
  have r: "clampIdx (length (hr_time (times_only 24))) 20 (periods ! 0) = (0, - 8)"
    by (simp add: times_only_def periods_def clampIdx_def rawIdx_def)
  have n: "period_name (periods ! 0) = ''Morning (08:00-12:00)''" by (simp add: periods_def)
  from slicer_bounds_and_empty [of "times_only 24"] p c
  have "fst (clampIdx (length (hr_time (times_only 24))) 20 (periods ! 0))
           \<ge> snd (clampIdx (length (hr_time (times_only 24))) 20 (periods ! 0))
         \<longrightarrow> periodForecast (times_only 24) 20 (periods ! 0)
               = notAvailable (period_name (periods ! 0))"
    by blast
  with r n p c show ?thesis by simp
qed

text \<open>
  C2 as stated fails: for the morning period at 20:00 and a series of length 24 the clamped
  start index 0 is above the clamped end index -8.
\<close>

theorem slicer_order_counterexample:
  "\<not> (fst (clampIdx 24 20 (periods ! 0)) \<le> snd (clampIdx 24 20 (periods ! 0)))"
  by (simp add: periods_def clampIdx_def rawIdx_def)

subsection \<open>Current classification\<close>

text \<open>
  C7. When the first two events are Low then High the current is the flood with speed
  \<open>0.5-1.5 kt\<close>; when they are High then Low it is the ebb with the same speed; for any
  other first two events, and for fewer than two events, speed and direction are both
  \<open>Variable\<close>.
\<close>

theorem current_classification:
  "(tide_type t0 = ''Low'' \<and> tide_type t1 = ''High''
      \<longrightarrow> current_of (t0 # t1 # rest) = (''0.5-1.5 kt'', ''Flood (incoming)''))
   \<and> (tide_type t0 = ''High'' \<and> tide_type t1 = ''Low''
      \<longrightarrow> current_of (t0 # t1 # rest) = (''0.5-1.5 kt'', ''Ebb (outgoing)''))
   \<and> (\<not> (tide_type t0 = ''Low'' \<and> tide_type t1 = ''High'')
      \<and> \<not> (tide_type t0 = ''High'' \<and> tide_type t1 = ''Low'')
      \<longrightarrow> current_of (t0 # t1 # rest) = (''Variable'', ''Variable''))
   \<and> (length tides < 2 \<longrightarrow> current_of tides = (''Variable'', ''Variable''))"
  by (simp add: current_of_def)

text \<open>Witness for C7: Low then High, High then Low, Low then Low, and a single event.\<close>

theorem current_classification_witness:
  "current_of [\<lparr>tide_time = ''03:10'', tide_type = ''Low'', tide_height = ''1.2 ft''\<rparr>,
               \<lparr>tide_time = ''09:40'', tide_type = ''High'', tide_height = ''10.4 ft''\<rparr>]
     = (''0.5-1.5 kt'', ''Flood (incoming)'')
   \<and> current_of [\<lparr>tide_time = ''03:10'', tide_type = ''High'', tide_height = ''10.2 ft''\<rparr>,
                 \<lparr>tide_time = ''09:40'', tide_type = ''Low'', tide_height = ''0.4 ft''\<rparr>]
     = (''0.5-1.5 kt'', ''Ebb (outgoing)'')
   \<and> current_of [\<lparr>tide_time = ''03:10'', tide_type = ''Low'', tide_height = ''1.2 ft''\<rparr>,
                 \<lparr>tide_time = ''09:40'', tide_type = ''Low'', tide_height = ''0.4 ft''\<rparr>]
     = (''Variable'', ''Variable'')
   \<and> current_of [\<lparr>tide_time = ''03:10'', tide_type = ''Low'', tide_height = ''1.2 ft''\<rparr>]
     = (''Variable'', ''Variable'')"
  using
    current_classification [of "\<lparr>tide_time = ''03:10'', tide_type = ''Low'', tide_height = ''1.2 ft''\<rparr>"
      "\<lparr>tide_time = ''09:40'', tide_type = ''High'', tide_height = ''10.4 ft''\<rparr>" "[]" "[]"]
    current_classification [of "\<lparr>tide_time = ''03:10'', tide_type = ''High'', tide_height = ''10.2 ft''\<rparr>"
      "\<lparr>tide_time = ''09:40'', tide_type = ''Low'', tide_height = ''0.4 ft''\<rparr>" "[]" "[]"]
    current_classification [of "\<lparr>tide_time = ''03:10'', tide_type = ''Low'', tide_height = ''1.2 ft''\<rparr>"
      "\<lparr>tide_time = ''09:40'', tide_type = ''Low'', tide_height = ''0.4 ft''\<rparr>" "[]"
      "[\<lparr>tide_time = ''03:10'', tide_type = ''Low'', tide_height = ''1.2 ft''\<rparr>]"]
  by simp

subsection \<open>Number renderings\<close>
















subsection \<open>Aggregator\<close>



lemma slice_in_range:
  assumes "0 \<le> s" "s \<le> e" "e \<le> int (length xs)"
  shows "slice xs s e = take (nat (e - s)) (drop (nat s) xs)"
    and "length (slice xs s e) = nat (e - s)"
proof -
  have n: "nat (e - s) + nat s \<le> length xs" using assms by linarith
  show "slice xs s e = take (nat (e - s)) (drop (nat s) xs)"
    using assms by (simp add: slice_def Let_def min_def max_def)
  then show "length (slice xs s e) = nat (e - s)" using n by simp
qed

lemma slice_nth:
  assumes "0 \<le> s" "s \<le> e" "e \<le> int (length xs)" "i < nat (e - s)"
  shows "slice xs s e ! i = xs ! (nat s + i)"
  using assms by (simp add: slice_in_range)

lemma clampIdx_nonempty:
  assumes "clampIdx len currentHour period = (s, e)" "s < e"
  shows "0 \<le> s" "e \<le> int len - 1" "s < int len"
  using assms clampIdx_bounds [of len currentHour period] by auto

lemma periodForecast_nonempty:
  assumes "clampIdx (length (hr_time h)) currentHour period = (s, e)" "s < e"
  shows "pf_waves (periodForecast h currentHour period)
           = waveHeight (parseFloat (toFixed 0 (average (slice (hr_wind_speed_10m h) s e))))"
    and "pf_conditions (periodForecast h currentHour period)
           = getWeatherDescription (at_index (slice (hr_weather_code h) s e)
               (length (slice (hr_weather_code h) s e) div 2))"
  using assms by (simp_all add: periodForecast_def Let_def)




lemma slice_nonempty:
  assumes "clampIdx len currentHour period = (s, e)" "s < e" "length xs = len"
  shows "slice xs s e \<noteq> []" and "length (slice xs s e) = nat (e - s)"
proof -
  note b = clampIdx_nonempty [OF assms(1,2)]
  show "length (slice xs s e) = nat (e - s)"
    using b assms(2,3) by (intro slice_in_range) simp_all
  then show "slice xs s e \<noteq> []" using assms(2) by auto
qed



lemma codes_distinct: "distinct (map fst codes)"
  by (simp add: codes_def)

lemma codes_labels: "(c, label) \<in> set codes \<Longrightarrow> label \<noteq> []"
  by (auto simp add: codes_def)

lemma getWeatherDescription_table:
  "(c, label) \<in> set codes \<Longrightarrow> getWeatherDescription (Some c) = label"
proof -
  assume m: "(c, label) \<in> set codes"
  then have "map_of codes c = Some label" using codes_distinct by (rule map_of_is_SomeI [rotated])
  then show ?thesis using codes_labels [OF m] by (simp add: getWeatherDescription_def)
qed

lemma getWeatherDescription_unmapped:
  "c \<notin> fst ` set codes \<Longrightarrow> getWeatherDescription (Some c) = ''Unknown''"
proof -
  assume "c \<notin> fst ` set codes"
  then have "map_of codes c = None" by (simp add: map_of_eq_None_iff)
  then show ?thesis by (simp add: getWeatherDescription_def)
qed

lemma middle_of_slice:
  assumes c: "clampIdx (length (hr_time h)) currentHour period = (s, e)" and lt: "s < e"
    and len: "length (hr_weather_code h) = length (hr_time h)"
  shows "slice (hr_weather_code h) s e ! (length (slice (hr_weather_code h) s e) div 2)
           = hr_weather_code h ! (nat s + nat (e - s) div 2)"
proof -
  note b = clampIdx_nonempty [OF c lt]
  have r: "0 \<le> s" "s \<le> e" "e \<le> int (length (hr_weather_code h))" using b lt len by simp_all
  have l: "length (slice (hr_weather_code h) s e) = nat (e - s)" using r by (rule slice_in_range)
  have i: "nat (e - s) div 2 < nat (e - s)" using lt by simp
  show ?thesis by (simp add: l slice_nth [OF r i])
qed

text \<open>
  C9. For every non-empty period slice the condition of the summary is the description of
  the weather code at the middle index of the slice, \<open>floor(length / 2)\<close>; the codes are
  not counted. When the weather codes are as many as the time stamps the slice is not
  empty and that code is the one at \<open>startIdx + floor((endIdx - startIdx) / 2)\<close> of the
  series. A code of the table is described by its label, any other code by \<open>Unknown\<close>.
\<close>

theorem dominant_condition_middle:
  "(clampIdx (length (hr_time h)) currentHour period = (s, e) \<and> s < e
      \<and> slice (hr_weather_code h) s e \<noteq> []
    \<longrightarrow> pf_conditions (periodForecast h currentHour period)
          = getWeatherDescription
              (Some (slice (hr_weather_code h) s e
                       ! (length (slice (hr_weather_code h) s e) div 2))))
   \<and> (clampIdx (length (hr_time h)) currentHour period = (s, e) \<and> s < e
      \<and> length (hr_weather_code h) = length (hr_time h)
    \<longrightarrow> slice (hr_weather_code h) s e \<noteq> []
        \<and> slice (hr_weather_code h) s e ! (length (slice (hr_weather_code h) s e) div 2)
            = hr_weather_code h ! (nat s + nat (e - s) div 2))
   \<and> (\<forall>(c, label) \<in> set codes. getWeatherDescription (Some c) = label)
   \<and> (c \<notin> fst ` set codes \<longrightarrow> getWeatherDescription (Some c) = ''Unknown'')"
proof (intro conjI impI)
  assume a: "clampIdx (length (hr_time h)) currentHour period = (s, e) \<and> s < e
      \<and> slice (hr_weather_code h) s e \<noteq> []"
  then have c: "clampIdx (length (hr_time h)) currentHour period = (s, e)" and lt: "s < e"
    and ne: "slice (hr_weather_code h) s e \<noteq> []"
    by simp_all
  have "length (slice (hr_weather_code h) s e) div 2 < length (slice (hr_weather_code h) s e)"
    using ne by simp
  then show "pf_conditions (periodForecast h currentHour period)
          = getWeatherDescription
              (Some (slice (hr_weather_code h) s e
                       ! (length (slice (hr_weather_code h) s e) div 2)))"
    by (simp add: periodForecast_nonempty(2) [OF c lt] at_index_def)
next
  assume a: "clampIdx (length (hr_time h)) currentHour period = (s, e) \<and> s < e
      \<and> length (hr_weather_code h) = length (hr_time h)"
  then show "slice (hr_weather_code h) s e \<noteq> []"
    using slice_nonempty(1) [of "length (hr_time h)" currentHour period s e "hr_weather_code h"]
    by simp
  from a show "slice (hr_weather_code h) s e ! (length (slice (hr_weather_code h) s e) div 2)
            = hr_weather_code h ! (nat s + nat (e - s) div 2)"
    using middle_of_slice [of h currentHour period s e] by simp
next
  show "\<forall>(c, label) \<in> set codes. getWeatherDescription (Some c) = label"
    using getWeatherDescription_table by blast
next
  assume "c \<notin> fst ` set codes"
  then show "getWeatherDescription (Some c) = ''Unknown''"
    by (rule getWeatherDescription_unmapped)
qed

text \<open>
  Witness for C9: the morning of the sample series at 08:00. The codes of the slice are
  3, 3, 63, 3; the summary says \<open>Rain\<close>, the code at index 2, although three of the four
  hours are overcast.
\<close>

theorem dominant_condition_middle_witness:
  "clampIdx (length (hr_time sample_hourly)) 8 (periods ! 0) = (0, 4)
   \<and> slice (hr_weather_code sample_hourly) 0 4 = [3, 3, 63, 3]
   \<and> hr_weather_code sample_hourly ! (nat 0 + nat (4 - 0) div 2) = 63
   \<and> pf_conditions (periodForecast sample_hourly 8 (periods ! 0)) = ''Rain''
   \<and> getWeatherDescription (Some 3) = ''Overcast''
   \<and> getWeatherDescription (Some 4) = ''Unknown''"
proof -
  have c: "clampIdx (length (hr_time sample_hourly)) 8 (periods ! 0) = (0, 4)"
    by (simp add: sample_hourly_def periods_def clampIdx_def rawIdx_def)
  have l: "length (hr_weather_code sample_hourly) = length (hr_time sample_hourly)"
    by (simp add: sample_hourly_def)
  have sl: "slice (hr_weather_code sample_hourly) 0 4 = [3, 3, 63, 3]"
    by (simp add: sample_hourly_def slice_def)
  have m: "hr_weather_code sample_hourly ! (nat 0 + nat (4 - 0) div 2) = 63"
    by (simp add: sample_hourly_def)
  have lt: "(0::int) < 4" by simp
  have k3: "(3, ''Overcast'') \<in> set codes" and k63: "(63, ''Rain'') \<in> set codes"
    and k4: "4 \<notin> fst ` set codes"
    by (simp_all add: codes_def)
  note t = dominant_condition_middle [of sample_hourly 8 "periods ! 0" 0 4 4]
  note t1 = conjunct1 [OF t]
  note t2 = conjunct1 [OF conjunct2 [OF t]]
  note t3 = conjunct1 [OF conjunct2 [OF conjunct2 [OF t]]]
  note t4 = conjunct2 [OF conjunct2 [OF conjunct2 [OF t]]]
  have ne: "slice (hr_weather_code sample_hourly) 0 4 \<noteq> []"
    and mid: "slice (hr_weather_code sample_hourly) 0 4
                ! (length (slice (hr_weather_code sample_hourly) 0 4) div 2)
              = hr_weather_code sample_hourly ! (nat 0 + nat (4 - 0) div 2)"
    using t2 c l lt by (simp_all only: simp_thms)
  have p: "pf_conditions (periodForecast sample_hourly 8 (periods ! 0))
             = getWeatherDescription
                 (Some (slice (hr_weather_code sample_hourly) 0 4
                          ! (length (slice (hr_weather_code sample_hourly) 0 4) div 2)))"
    using t1 c ne lt by (simp only: simp_thms)
  have d3: "getWeatherDescription (Some 3) = ''Overcast''" using bspec [OF t3 k3] by simp
  have d63: "getWeatherDescription (Some 63) = ''Rain''" using bspec [OF t3 k63] by simp
  have d4: "getWeatherDescription (Some 4) = ''Unknown''" using t4 k4 by (simp only: simp_thms)
  have "pf_conditions (periodForecast sample_hourly 8 (periods ! 0)) = ''Rain''"
    unfolding p mid m d63 ..
  with c sl m d3 d4 show ?thesis by (intro conjI)
qed

subsection \<open>Tide normaliser\<close>

text \<open>
  C10. A prediction whose type is not exactly the string \<open>H\<close> becomes a \<open>Low\<close> event,
  whatever the type is; one whose type is \<open>H\<close> becomes a \<open>High\<close> event. No event of the
  normaliser, and none of the tide list of a run, has another kind.
\<close>

theorem tide_kind_high_or_low:
  "(pr_type p \<noteq> ''H'' \<longrightarrow> tide_type (normalizeTide p) = ''Low'')
   \<and> (pr_type p = ''H'' \<longrightarrow> tide_type (normalizeTide p) = ''High'')
   \<and> (\<forall>e \<in> set (normalizeTides ps). tide_type e = ''High'' \<or> tide_type e = ''Low'')
   \<and> (\<forall>e \<in> set (tides_of r). tide_type e = ''High'' \<or> tide_type e = ''Low'')"
proof -
  have 1: "tide_type e = ''High'' \<or> tide_type e = ''Low''" if "e \<in> set (normalizeTides qs)" for e qs
    using that by (auto simp add: normalizeTides_def normalizeTide_def split: if_splits)
  have 2: "tide_type e = ''High'' \<or> tide_type e = ''Low''" if "e \<in> set (tides_of r)" for e
    using that 1 by (auto simp add: tides_of_def split: response.splits body.splits option.splits)
  show ?thesis using 1 2 by (simp add: normalizeTide_def)
qed

text \<open>Witness for C10: the types \<open>h?\<close>, the empty string and \<open>H\<close>.\<close>

theorem tide_kind_high_or_low_witness:
  "pr_type \<lparr>pr_t = None, pr_type = ''h?'', pr_v = ''1.0''\<rparr> \<noteq> ''H''
   \<and> tide_type (normalizeTide \<lparr>pr_t = None, pr_type = ''h?'', pr_v = ''1.0''\<rparr>) = ''Low''
   \<and> tide_type (normalizeTide \<lparr>pr_t = None, pr_type = '''', pr_v = ''1.0''\<rparr>) = ''Low''
   \<and> tide_type (normalizeTide \<lparr>pr_t = None, pr_type = ''H'', pr_v = ''1.0''\<rparr>) = ''High''"
  using tide_kind_high_or_low [of "\<lparr>pr_t = None, pr_type = ''h?'', pr_v = ''1.0''\<rparr>"]
    tide_kind_high_or_low [of "\<lparr>pr_t = None, pr_type = '''', pr_v = ''1.0''\<rparr>"]
    tide_kind_high_or_low [of "\<lparr>pr_t = None, pr_type = ''H'', pr_v = ''1.0''\<rparr>"]
  by simp














subsection \<open>Assembly and failures\<close>

lemma tides_of_missing: "tide_missing t \<Longrightarrow> tides_of t = []"
  by (auto simp add: tide_missing_def tides_of_def normalizeTides_def slice_def
      split: response.splits body.splits)

lemma waterTemp_of_missing: "waterTemp_missing wt \<Longrightarrow> waterTemp_of wt = defaultWaterTemp"
  by (auto simp add: waterTemp_missing_def waterTemp_of_def split: response.splits body.splits)

lemma fetchForecast_unusable:
  "weather_unusable w \<Longrightarrow> \<exists>e. fetchForecast now w t wt = Inl e"
  by (auto simp add: weather_unusable_def fetchForecast_def buildForecast_def ok_def
      split: response.splits body.splits option.splits)

lemma fetchForecast_usable:
  assumes "\<not> weather_unusable w"
  obtains status wd h c d where "w = Http status (Parsed wd)" "200 \<le> status" "status \<le> 299"
    "wd_hourly wd = Some h" "wd_current wd = Some c" "wd_daily wd = Some d"
  using assms
  by (auto simp add: weather_unusable_def split: response.splits body.splits)

lemma fetchForecast_build:
  assumes "w = Http status (Parsed wd)" "200 \<le> status" "status \<le> 299"
  shows "fetchForecast now w t wt = buildForecast now wd (tides_of t) (waterTemp_of wt)"
  using assms by (simp add: fetchForecast_def ok_def)

lemma buildForecast_Inr:
  assumes "wd_hourly wd = Some h" "wd_current wd = Some c" "wd_daily wd = Some d"
  shows "buildForecast now wd tides waterTemp =
           Inr \<lparr>fd_location = ''Elliott Bay, Seattle'',
                fd_shiftStart = fst (shiftWindow now),
                fd_shiftEnd = snd (shiftWindow now),
                fd_tides = tides,
                fd_conditions =
                  \<lparr>cond_current = currentConditions c,
                   cond_forecast = map (periodForecast h (getHours now)) periods\<rparr>,
                fd_marine =
                  \<lparr>md_waterTemp = waterTemp,
                   md_currentSpeed = fst (current_of tides),
                   md_currentDir = snd (current_of tides),
                   md_sunrise = toLocaleTimeString (first_date (dy_sunrise d)),
                   md_sunset = toLocaleTimeString (first_date (dy_sunset d))\<rparr>\<rparr>"
  using assms by (simp add: buildForecast_def Let_def split_beta)

text \<open>
  C4. When the weather payload is absent or malformed (the request fails, the status is not
  OK, the body does not parse or lacks a section) the run ends with an error and no
  forecast object. In every other case the run ends with a forecast object, whatever the
  tide and water-temperature exchanges gave: nothing but the weather payload aborts a run.
\<close>

theorem weather_failure_only_abort:
  "(weather_unusable w \<longrightarrow> (\<exists>e. fetchForecast now w t wt = Inl e))
   \<and> (\<not> weather_unusable w \<longrightarrow> (\<exists>r. fetchForecast now w t wt = Inr r))
   \<and> fetchForecast now (NetworkError m) t wt = Inl (Thrown m)
   \<and> (status < 200 \<or> 299 < status \<longrightarrow> fetchForecast now (Http status b) t wt = Inl (WeatherApi status))"
proof (intro conjI impI)
  assume "weather_unusable w"
  then show "\<exists>e. fetchForecast now w t wt = Inl e" by (rule fetchForecast_unusable)
next
  assume "\<not> weather_unusable w"
  then obtain status wd h c d where w: "w = Http status (Parsed wd)" "200 \<le> status" "status \<le> 299"
    and s: "wd_hourly wd = Some h" "wd_current wd = Some c" "wd_daily wd = Some d"
    by (rule fetchForecast_usable)
  show "\<exists>r. fetchForecast now w t wt = Inr r"
    unfolding fetchForecast_build [OF w] buildForecast_Inr [OF s] by blast
next
  show "fetchForecast now (NetworkError m) t wt = Inl (Thrown m)"
    by (simp add: fetchForecast_def)
next
  assume "status < 200 \<or> 299 < status"
  then show "fetchForecast now (Http status b) t wt = Inl (WeatherApi status)"
    by (auto simp add: fetchForecast_def ok_def)
qed

text \<open>
  Witness for C4: a 503 answer and a payload without its hourly section abort the run,
  although tides and water temperature arrived; the sample payload gives a forecast
  although both other requests failed.
\<close>

theorem weather_failure_only_abort_witness:
  "weather_unusable (Http 503 (Unparseable ''Unexpected token''))
   \<and> fetchForecast (8 * msPerHour) (Http 503 (Unparseable ''Unexpected token''))
        (Http 200 (Parsed \<lparr>predictions = Some sample_predictions\<rparr>))
        (Http 200 (Parsed \<lparr>wt_data = Some [\<lparr>rd_v = ''51.6''\<rparr>]\<rparr>)) = Inl (WeatherApi 503)
   \<and> weather_unusable (Http 200 (Parsed (sample_weather\<lparr>wd_hourly := None\<rparr>)))
   \<and> fetchForecast (8 * msPerHour) (Http 200 (Parsed (sample_weather\<lparr>wd_hourly := None\<rparr>)))
        (Http 200 (Parsed \<lparr>predictions = Some sample_predictions\<rparr>))
        (Http 200 (Parsed \<lparr>wt_data = Some [\<lparr>rd_v = ''51.6''\<rparr>]\<rparr>)) = Inl TypeError
   \<and> \<not> weather_unusable (Http 200 (Parsed sample_weather))
   \<and> (\<exists>r. fetchForecast (8 * msPerHour) (Http 200 (Parsed sample_weather))
              (NetworkError ''Failed to fetch'') (NetworkError ''Failed to fetch'') = Inr r)"
proof -
  have u1: "weather_unusable (Http 503 (Unparseable ''Unexpected token''))"
    by (simp add: weather_unusable_def)
  have u2: "weather_unusable (Http 200 (Parsed (sample_weather\<lparr>wd_hourly := None\<rparr>)))"
    by (simp add: weather_unusable_def sample_weather_def)
  have u3: "\<not> weather_unusable (Http 200 (Parsed sample_weather))"
    by (simp add: weather_unusable_def sample_weather_def)
  have s: "(503::nat) < 200 \<or> 299 < (503::nat)" by simp
  have 1: "fetchForecast (8 * msPerHour) (Http 503 (Unparseable ''Unexpected token''))
        (Http 200 (Parsed \<lparr>predictions = Some sample_predictions\<rparr>))
        (Http 200 (Parsed \<lparr>wt_data = Some [\<lparr>rd_v = ''51.6''\<rparr>]\<rparr>)) = Inl (WeatherApi 503)"
    using weather_failure_only_abort [of _ _ _ _ _ 503 "Unparseable ''Unexpected token''"] s
    by blast
  have "\<exists>e. fetchForecast (8 * msPerHour) (Http 200 (Parsed (sample_weather\<lparr>wd_hourly := None\<rparr>)))
        (Http 200 (Parsed \<lparr>predictions = Some sample_predictions\<rparr>))
        (Http 200 (Parsed \<lparr>wt_data = Some [\<lparr>rd_v = ''51.6''\<rparr>]\<rparr>)) = Inl e"
    using weather_failure_only_abort [of "Http 200 (Parsed (sample_weather\<lparr>wd_hourly := None\<rparr>))"] u2
    by blast
  then have 2: "fetchForecast (8 * msPerHour) (Http 200 (Parsed (sample_weather\<lparr>wd_hourly := None\<rparr>)))
        (Http 200 (Parsed \<lparr>predictions = Some sample_predictions\<rparr>))
        (Http 200 (Parsed \<lparr>wt_data = Some [\<lparr>rd_v = ''51.6''\<rparr>]\<rparr>)) = Inl TypeError"
    by (simp add: fetchForecast_def ok_def buildForecast_def sample_weather_def)
  have 3: "\<exists>r. fetchForecast (8 * msPerHour) (Http 200 (Parsed sample_weather))
              (NetworkError ''Failed to fetch'') (NetworkError ''Failed to fetch'') = Inr r"
    using weather_failure_only_abort [of "Http 200 (Parsed sample_weather)"] u3 by blast
  show ?thesis using u1 u2 u3 1 2 3 by (intro conjI)
qed

text \<open>
  C5. With a usable weather payload the run always gives a forecast object whose
  conditions, period forecasts, sunrise, sunset and shift window are those computed from
  the weather payload and \<open>now\<close>. When the tide payload is missing or empty its tide list
  is empty and current direction and speed are \<open>Variable\<close>; when the water-temperature
  reading is missing the water temperature is the fixed default, 52 degrees Fahrenheit.
\<close>

theorem tide_and_water_fallbacks:
  assumes "w = Http status (Parsed wd)" "200 \<le> status" "status \<le> 299"
    and "wd_hourly wd = Some h" "wd_current wd = Some c" "wd_daily wd = Some d"
  shows "\<exists>r. fetchForecast now w t wt = Inr r
           \<and> fd_conditions r =
               \<lparr>cond_current = currentConditions c,
                cond_forecast = map (periodForecast h (getHours now)) periods\<rparr>
           \<and> length (cond_forecast (fd_conditions r)) = 4
           \<and> md_sunrise (fd_marine r) = toLocaleTimeString (first_date (dy_sunrise d))
           \<and> md_sunset (fd_marine r) = toLocaleTimeString (first_date (dy_sunset d))
           \<and> (fd_shiftStart r, fd_shiftEnd r) = shiftWindow now
           \<and> (tide_missing t \<longrightarrow>
                fd_tides r = [] \<and> md_currentDir (fd_marine r) = ''Variable''
                \<and> md_currentSpeed (fd_marine r) = ''Variable'')
           \<and> (waterTemp_missing wt \<longrightarrow> md_waterTemp (fd_marine r) = defaultWaterTemp)"
proof -
  have c0: "current_of [] = (''Variable'', ''Variable'')" by (simp add: current_of_def)
  have l: "length periods = 4" by (simp add: periods_def)
  show ?thesis
    unfolding fetchForecast_build [OF assms(1-3)] buildForecast_Inr [OF assms(4-6)]
    using c0 l by (auto simp add: tides_of_missing waterTemp_of_missing)
qed



text \<open>
  Witness for C5: the sample payload at 08:30, the tide request failed, the
  water-temperature answer without data.
\<close>

theorem tide_and_water_fallbacks_witness:
  "\<exists>r. fetchForecast (8 * msPerHour + 30 * msPerMinute) (Http 200 (Parsed sample_weather))
          (NetworkError ''Failed to fetch'') (Http 200 (Parsed \<lparr>wt_data = None\<rparr>)) = Inr r
        \<and> fd_tides r = []
        \<and> md_currentDir (fd_marine r) = ''Variable''
        \<and> md_currentSpeed (fd_marine r) = ''Variable''
        \<and> md_waterTemp (fd_marine r) = ''52'' @ degree_sign @ ''F''
        \<and> cc_pressure (cond_current (fd_conditions r)) = ''29.92 inHg''
        \<and> map pf_waves (cond_forecast (fd_conditions r)) = [''2-3 ft'', ''2-3 ft'', ''N/A'', ''N/A'']
        \<and> md_sunrise (fd_marine r) = ''07:52''"
proof -
  have w: "wd_hourly sample_weather = Some sample_hourly"
    "wd_current sample_weather = Some sample_current"
    "wd_daily sample_weather = Some sample_daily"
    by (simp_all add: sample_weather_def)
  have tm: "tide_missing (NetworkError ''Failed to fetch'')" by (simp add: tide_missing_def)
  have wm: "waterTemp_missing (Http 200 (Parsed \<lparr>wt_data = None\<rparr>))"
    by (simp add: waterTemp_missing_def)
  have cc: "cc_pressure (currentConditions sample_current) = ''29.92 inHg''" by code_simp
  have pw: "map pf_waves (map (periodForecast sample_hourly
              (getHours (8 * msPerHour + 30 * msPerMinute))) periods)
            = [''2-3 ft'', ''2-3 ft'', ''N/A'', ''N/A'']"
    by code_simp
  have sr: "toLocaleTimeString (first_date (dy_sunrise sample_daily)) = ''07:52''" by code_simp
  from tide_and_water_fallbacks [OF refl _ _ w, of 200 "8 * msPerHour + 30 * msPerMinute"
      "NetworkError ''Failed to fetch''" "Http 200 (Parsed \<lparr>wt_data = None\<rparr>)"]
  obtain r where r: "fetchForecast (8 * msPerHour + 30 * msPerMinute) (Http 200 (Parsed sample_weather))
          (NetworkError ''Failed to fetch'') (Http 200 (Parsed \<lparr>wt_data = None\<rparr>)) = Inr r"
    and c: "fd_conditions r =
               \<lparr>cond_current = currentConditions sample_current,
                cond_forecast = map (periodForecast sample_hourly
                  (getHours (8 * msPerHour + 30 * msPerMinute))) periods\<rparr>"
    and s: "md_sunrise (fd_marine r) = toLocaleTimeString (first_date (dy_sunrise sample_daily))"
    and t: "tide_missing (NetworkError ''Failed to fetch'') \<longrightarrow>
                fd_tides r = [] \<and> md_currentDir (fd_marine r) = ''Variable''
                \<and> md_currentSpeed (fd_marine r) = ''Variable''"
    and v: "waterTemp_missing (Http 200 (Parsed \<lparr>wt_data = None\<rparr>))
              \<longrightarrow> md_waterTemp (fd_marine r) = defaultWaterTemp"
    by auto
  from t tm have t': "fd_tides r = []" "md_currentDir (fd_marine r) = ''Variable''"
    "md_currentSpeed (fd_marine r) = ''Variable''" by simp_all
  from v wm have v': "md_waterTemp (fd_marine r) = ''52'' @ degree_sign @ ''F''"
    by (simp add: defaultWaterTemp_def)
  have c1: "cc_pressure (cond_current (fd_conditions r)) = ''29.92 inHg''"
    unfolding c using cc by simp
  have c2: "map pf_waves (cond_forecast (fd_conditions r)) = [''2-3 ft'', ''2-3 ft'', ''N/A'', ''N/A'']"
    unfolding c using pw by simp
  have c3: "md_sunrise (fd_marine r) = ''07:52''" unfolding s sr ..
  show ?thesis using r t' v' c1 c2 c3 by (intro exI [of _ r] conjI)
qed

end
